theory Spec2Isabelle
  imports Complex_Main "HOL-Library.Word"
begin

section \<open>Values of the toolkit and of the application\<close>

subsection \<open>C++ \<open>double\<close>\<close>

text \<open>
  The min/max popup stores and compares \<open>double\<close> values. A \<open>double\<close> is a
  not-a-number, one of the two infinities, or a finite value. The finite values are
  kept as rationals: every finite binary64 value is one, the two zeros compare equal
  and are one value here, and the popup never does arithmetic on them, it only
  compares them and hands them to the frame's formatter.
\<close>

datatype double = NaN | NegInf | Finite rat | PosInf

text \<open>The comparison operators of C++ on \<open>double\<close>: every comparison with a NaN is false.\<close>

fun dlt :: "double \<Rightarrow> double \<Rightarrow> bool" where
  "dlt NaN y = False"
| "dlt x NaN = False"
| "dlt NegInf NegInf = False"
| "dlt NegInf y = True"
| "dlt (Finite a) NegInf = False"
| "dlt (Finite a) (Finite b) = (a < b)"
| "dlt (Finite a) PosInf = True"
| "dlt PosInf y = False"

fun dle :: "double \<Rightarrow> double \<Rightarrow> bool" where
  "dle NaN y = False"
| "dle x NaN = False"
| "dle NegInf y = True"
| "dle (Finite a) NegInf = False"
| "dle (Finite a) (Finite b) = (a \<le> b)"
| "dle (Finite a) PosInf = True"
| "dle PosInf PosInf = True"
| "dle PosInf y = False"

definition dgt :: "double \<Rightarrow> double \<Rightarrow> bool" where
  "dgt x y = dlt y x"

definition dge :: "double \<Rightarrow> double \<Rightarrow> bool" where
  "dge x y = dle y x"

fun deq :: "double \<Rightarrow> double \<Rightarrow> bool" where
  "deq NaN y = False"
| "deq x NaN = False"
| "deq NegInf NegInf = True"
| "deq NegInf y = False"
| "deq (Finite a) (Finite b) = (a = b)"
| "deq (Finite a) y = False"
| "deq PosInf PosInf = True"
| "deq PosInf y = False"

text \<open>The literals of the source, each the binary64 value nearest to what is written.\<close>

definition lit_0_0 :: double where
  "lit_0_0 = Finite 0"

definition lit_1_0 :: double where
  "lit_1_0 = Finite 1"

definition lit_0_5 :: double where
  "lit_0_5 = Finite (1 / 2)"

definition lit_0_7 :: double where
  "lit_0_7 = Finite (3152519739159347 / 4503599627370496)"

definition lit_0_3 :: double where
  "lit_0_3 = Finite (5404319552844595 / 18014398509481984)"

subsection \<open>Toolkit values\<close>

type_synonym wxString = string

record wxColour =
  Red :: "8 word"
  Green :: "8 word"
  Blue :: "8 word"
  Alpha :: "8 word"

record wxPoint =
  wx_x :: int
  wx_y :: int

record wxSize =
  wx_width :: int
  wx_height :: int

record VECTOR2I =
  vec_x :: int
  vec_y :: int

datatype wxSystemColour = wxSYS_COLOUR_WINDOW | wxSYS_COLOUR_BTNFACE | wxSYS_COLOUR_BTNTEXT

datatype wxEventType = wxEVT_CHAR_HOOK | wxEVT_CHAR | wxEVT_KEY_DOWN | wxEVT_KEY_UP

record wxKeyEvent =
  EventType :: wxEventType
  KeyCode :: int

text \<open>
  The parent window of a popup. A draw frame owns a canvas; every window has an event
  handler. Canvases and event handlers are named by handles.
\<close>

record EDA_DRAW_FRAME =
  Canvas :: nat
  FrameEventHandler :: nat

datatype wxWindow = DrawFrameWindow EDA_DRAW_FRAME | OtherWindow nat

fun GetEventHandler :: "wxWindow \<Rightarrow> nat" where
  "GetEventHandler (DrawFrameWindow f) = FrameEventHandler f"
| "GetEventHandler (OtherWindow h) = h"

text \<open>\<open>dynamic_cast<EDA_DRAW_FRAME*>\<close>: the frame when the window is one, null otherwise
  (and null for a null pointer).\<close>

fun dynamic_cast_EDA_DRAW_FRAME :: "wxWindow option \<Rightarrow> EDA_DRAW_FRAME option" where
  "dynamic_cast_EDA_DRAW_FRAME None = None"
| "dynamic_cast_EDA_DRAW_FRAME (Some (DrawFrameWindow f)) = Some f"
| "dynamic_cast_EDA_DRAW_FRAME (Some (OtherWindow h)) = None"

text \<open>
  Modelled from the spec: the toolkit's timer \<open>wxTimer\<close> is not defined in
  \<open>status_popup.cpp\<close>. The spec's expiry timer is a "single-shot countdown associated
  1:1 with a popup instance": the timer is stopped, or running once with the
  milliseconds left.
\<close>

datatype wxTimer = Stopped | OneShot int

text \<open>
  Modelled from the spec: \<open>wxTimer::StartOnce\<close>, the toolkit's. The timer is "armed on
  request, cancels/restarts on re-arming", and "any previously pending expiry is
  replaced": starting the timer forgets what it was doing.
\<close>

definition StartOnce :: "int \<Rightarrow> wxTimer \<Rightarrow> wxTimer" where
  "StartOnce milliseconds t = OneShot milliseconds"

text \<open>The expiries a timer has pending, each with the milliseconds left to it.\<close>

definition pending_expiries :: "wxTimer \<Rightarrow> int list" where
  "pending_expiries t = (case t of Stopped \<Rightarrow> [] | OneShot left \<Rightarrow> [left])"

text \<open>
  Modelled from the spec: \<open>ToWxPoint\<close> (\<open>math/vector2wx.h\<close>) is not among the sources. The
  spec's \<open>move-to(point)\<close> takes "two supported coordinate representations, otherwise
  equivalent": the conversion keeps both coordinates.
\<close>

definition ToWxPoint :: "VECTOR2I \<Rightarrow> wxPoint" where
  "ToWxPoint aSize = \<lparr> wx_x = vec_x aSize, wx_y = vec_y aSize \<rparr>"

record wxStaticText =
  Label :: wxString
  ForegroundColour :: wxColour

subsection \<open>Collaborators outside this file\<close>

text \<open>
  What \<open>status_popup.cpp\<close> calls and does not define is a parameter of the model: the
  system colours, the frame's value formatter (its second argument is
  \<open>aAddUnitLabel\<close>), the colour class \<open>COLOR4D\<close> (the type \<open>'c\<close>) with its default
  constructor, its constructor from a toolkit colour, \<open>ToHSL\<close>, \<open>FromHSL\<close> (which takes
  the colour it is called on) and \<open>ToColour\<close>, the size the sizer fits the panel to,
  as a function of the texts of the panel's labels, the translation of a user-visible
  string, and the toolkit's defaults for a new window.
\<close>

record 'c collaborators =
  GetColour :: "wxSystemColour \<Rightarrow> wxColour"
  MessageTextFromValue :: "double \<Rightarrow> bool \<Rightarrow> wxString"
  COLOR4D_default :: 'c
  COLOR4D_from_wxColour :: "wxColour \<Rightarrow> 'c"
  ToHSL :: "'c \<Rightarrow> double \<times> double \<times> double"
  FromHSL :: "'c \<Rightarrow> double \<Rightarrow> double \<Rightarrow> double \<Rightarrow> 'c"
  ToColour :: "'c \<Rightarrow> wxColour"
  Fit :: "wxString list \<Rightarrow> wxSize"
  Translate :: "wxString \<Rightarrow> wxString"
  DefaultPosition :: wxPoint
  DefaultSize :: wxSize
  DefaultBackground :: wxColour
  DefaultForeground :: wxColour

section \<open>The popup base\<close>

text \<open>
  The state of a \<open>STATUS_POPUP\<close>: the window's parent, visibility, place in the
  z-order (raised or not), position, client size and background colour, the panel's
  size and colours, and the expiry timer. The derived popups extend the record.
  A popup window is created hidden.
\<close>

record STATUS_POPUP =
  Parent :: "wxWindow option"
  IsShown :: bool
  IsRaised :: bool
  Position :: wxPoint
  ClientSize :: wxSize
  BackgroundColour :: wxColour
  panel_Size :: wxSize
  panel_BackgroundColour :: wxColour
  panel_ForegroundColour :: wxColour
  m_expireTimer :: wxTimer

definition STATUS_POPUP_ctor :: "'c collaborators \<Rightarrow> wxWindow option \<Rightarrow> STATUS_POPUP" where
  "STATUS_POPUP_ctor tk aParent =
     \<lparr> Parent = aParent,
       IsShown = False,
       IsRaised = False,
       Position = DefaultPosition tk,
       ClientSize = DefaultSize tk,
       BackgroundColour = DefaultBackground tk,
       panel_Size = DefaultSize tk,
       panel_BackgroundColour = GetColour tk wxSYS_COLOUR_WINDOW,
       panel_ForegroundColour = DefaultForeground tk,
       m_expireTimer = Stopped \<rparr>"

text \<open>
  \<open>onCharHook\<close> retypes the event and hands it on; what it hands on, and to whom, is the
  result. \<open>GetParent()\<close> is a pointer: the \<open>else\<close> branch dereferences it unchecked.
\<close>

datatype error = NullPointerDereference

datatype dispatch = Canvas_OnEvent nat wxKeyEvent | ProcessEvent nat wxKeyEvent

definition onCharHook :: "'a STATUS_POPUP_scheme \<Rightarrow> wxKeyEvent \<Rightarrow> error + dispatch" where
  "onCharHook s aEvent =
     (let ev = aEvent\<lparr>EventType := wxEVT_CHAR\<rparr> in
      case dynamic_cast_EDA_DRAW_FRAME (Parent s) of
        Some frame \<Rightarrow> Inr (Canvas_OnEvent (Canvas frame) ev)
      | None \<Rightarrow>
          (case Parent s of
             None \<Rightarrow> Inl NullPointerDereference
           | Some w \<Rightarrow> Inr (ProcessEvent (GetEventHandler w) ev)))"

text \<open>\<open>Popup\<close> ignores its window argument: \<open>Show( true ); Raise();\<close>\<close>

definition Popup :: "'a STATUS_POPUP_scheme \<Rightarrow> 'a STATUS_POPUP_scheme" where
  "Popup s = (let s1 = s\<lparr>IsShown := True\<rparr> in s1\<lparr>IsRaised := True\<rparr>)"

definition Expire :: "int \<Rightarrow> 'a STATUS_POPUP_scheme \<Rightarrow> 'a STATUS_POPUP_scheme" where
  "Expire aMsecs s = s\<lparr>m_expireTimer := StartOnce aMsecs (m_expireTimer s)\<rparr>"

definition PopupFor :: "int \<Rightarrow> 'a STATUS_POPUP_scheme \<Rightarrow> 'a STATUS_POPUP_scheme" where
  "PopupFor aMsecs s = (let s1 = Popup s in Expire aMsecs s1)"

definition Move_VECTOR2I :: "VECTOR2I \<Rightarrow> 'a STATUS_POPUP_scheme \<Rightarrow> 'a STATUS_POPUP_scheme" where
  "Move_VECTOR2I aWhere s = s\<lparr>Position := ToWxPoint aWhere\<rparr>"

definition Move_wxPoint :: "wxPoint \<Rightarrow> 'a STATUS_POPUP_scheme \<Rightarrow> 'a STATUS_POPUP_scheme" where
  "Move_wxPoint aWhere s = s\<lparr>Position := aWhere\<rparr>"

definition updateSize ::
  "'c collaborators \<Rightarrow> wxString list \<Rightarrow> 'a STATUS_POPUP_scheme \<Rightarrow> 'a STATUS_POPUP_scheme" where
  "updateSize tk labels s =
     (let s1 = s\<lparr>panel_Size := Fit tk labels\<rparr> in s1\<lparr>ClientSize := panel_Size s1\<rparr>)"

definition onExpire :: "'a STATUS_POPUP_scheme \<Rightarrow> 'a STATUS_POPUP_scheme" where
  "onExpire s = s\<lparr>IsShown := False\<rparr>"

text \<open>
  Modelled from the spec: the event loop, which is the toolkit's. "The only asynchronous
  element is the expiry timer, which delivers a callback on the UI event loop after its
  duration elapses": when \<open>ms\<close> milliseconds pass with no call in between, a running timer
  with more than \<open>ms\<close> left keeps counting, and any other running timer stops (it is
  single-shot) and its event runs \<open>onExpire\<close>.
\<close>

definition elapse :: "nat \<Rightarrow> 'a STATUS_POPUP_scheme \<Rightarrow> 'a STATUS_POPUP_scheme" where
  "elapse ms s =
     (case m_expireTimer s of
        Stopped \<Rightarrow> s
      | OneShot left \<Rightarrow>
          if int ms < left then s\<lparr>m_expireTimer := OneShot (left - int ms)\<rparr>
          else onExpire (s\<lparr>m_expireTimer := Stopped\<rparr>))"

fun elapse_all :: "nat list \<Rightarrow> 'a STATUS_POPUP_scheme \<Rightarrow> 'a STATUS_POPUP_scheme" where
  "elapse_all [] s = s"
| "elapse_all (ms # rest) s = elapse_all rest (elapse ms s)"

section \<open>The min/max popup\<close>

text \<open>
  The min/max popup adds the two bounds, the labels that change after construction
  (each with its text and foreground colour) and whether the icon is shown. A new
  child window is shown.
\<close>

record STATUS_MIN_MAX_POPUP = STATUS_POPUP +
  m_frame :: EDA_DRAW_FRAME
  m_min :: double
  m_max :: double
  m_currentLabel :: wxStaticText
  m_currentText :: wxStaticText
  m_minText :: wxStaticText
  m_maxText :: wxStaticText
  m_icon_IsShown :: bool

definition STATUS_MIN_MAX_POPUP_ctor ::
  "'c collaborators \<Rightarrow> EDA_DRAW_FRAME \<Rightarrow> STATUS_MIN_MAX_POPUP" where
  "STATUS_MIN_MAX_POPUP_ctor tk aFrame =
     STATUS_POPUP.extend (STATUS_POPUP_ctor tk (Some (DrawFrameWindow aFrame)))
       (STATUS_MIN_MAX_POPUP.fields aFrame lit_0_0 lit_0_0
          \<lparr> Label = Translate tk ''current'', ForegroundColour = DefaultForeground tk \<rparr>
          \<lparr> Label = [], ForegroundColour = DefaultForeground tk \<rparr>
          \<lparr> Label = [], ForegroundColour = DefaultForeground tk \<rparr>
          \<lparr> Label = [], ForegroundColour = DefaultForeground tk \<rparr>
          True)"

definition panel_labels :: "STATUS_MIN_MAX_POPUP \<Rightarrow> wxString list" where
  "panel_labels s =
     [Label (m_currentLabel s), Label (m_currentText s), Label (m_minText s), Label (m_maxText s)]"

definition SetMinMax ::
  "'c collaborators \<Rightarrow> double \<Rightarrow> double \<Rightarrow> STATUS_MIN_MAX_POPUP \<Rightarrow> STATUS_MIN_MAX_POPUP" where
  "SetMinMax tk aMin aMax s =
     (let s1 = s\<lparr>m_min := aMin\<rparr>;
          s2 = s1\<lparr>m_minText := (m_minText s1)\<lparr>Label := MessageTextFromValue tk (m_min s1) False\<rparr>\<rparr>;
          s3 = s2\<lparr>m_max := aMax\<rparr>
      in s3\<lparr>m_maxText := (m_maxText s3)\<lparr>Label := MessageTextFromValue tk (m_max s3) False\<rparr>\<rparr>)"

text \<open>
  \<open>SetCurrent\<close>, statement by statement. \<open>MessageTextFromValue\<close> is called with its default
  \<open>aAddUnitLabel = true\<close>. \<open>Layout\<close>, \<open>Refresh\<close> and \<open>Update\<close> place and repaint what the
  state already holds.
\<close>

definition SetCurrent ::
  "'c collaborators \<Rightarrow> double \<Rightarrow> wxString \<Rightarrow> STATUS_MIN_MAX_POPUP \<Rightarrow> STATUS_MIN_MAX_POPUP" where
  "SetCurrent tk aCurrent aLabel s =
     (let s1 = s\<lparr>m_currentLabel := (m_currentLabel s)\<lparr>Label := aLabel\<rparr>\<rparr>;
          s2 = s1\<lparr>m_currentText := (m_currentText s1)\<lparr>Label := MessageTextFromValue tk aCurrent True\<rparr>\<rparr>;
          s3 = s2\<lparr>m_icon_IsShown := (dge aCurrent (m_min s2) \<and> dle aCurrent (m_max s2))\<rparr>;
          normal = GetColour tk wxSYS_COLOUR_BTNTEXT;
          bg = COLOR4D_from_wxColour tk (BackgroundColour s3);
          (bg_h, bg_s, bg_l) = ToHSL tk bg;
          red = FromHSL tk (COLOR4D_default tk) lit_0_0 lit_1_0
                  (if dlt bg_l lit_0_5 then lit_0_7 else lit_0_3);
          s4 = s3\<lparr>m_minText := (m_minText s3)\<lparr>ForegroundColour :=
                  (if dlt aCurrent (m_min s3) then ToColour tk red else normal)\<rparr>\<rparr>;
          s5 = s4\<lparr>m_maxText := (m_maxText s4)\<lparr>ForegroundColour :=
                  (if dgt aCurrent (m_max s4) then ToColour tk red else normal)\<rparr>\<rparr>
      in updateSize tk (panel_labels s5) s5)"

text \<open>
  The colour \<open>SetCurrent\<close> calls \<open>red\<close> (lines 203 to 207 of the source), as a function of
  the window's background colour.
\<close>

definition warning_colour :: "'c collaborators \<Rightarrow> wxColour \<Rightarrow> wxColour" where
  "warning_colour tk background =
     (case ToHSL tk (COLOR4D_from_wxColour tk background) of
        (bg_h, bg_s, bg_l) \<Rightarrow>
          ToColour tk (FromHSL tk (COLOR4D_default tk) lit_0_0 lit_1_0
            (if dlt bg_l lit_0_5 then lit_0_7 else lit_0_3)))"

text \<open>
  What can happen to a min/max popup other than \<open>SetMinMax\<close>: the calls of its public
  interface and the timer's event.
\<close>

datatype call =
    Call_Popup
  | Call_PopupFor int
  | Call_Move_VECTOR2I VECTOR2I
  | Call_Move_wxPoint wxPoint
  | Call_Expire int
  | Call_SetCurrent double wxString
  | Timer_fires

fun do_call :: "'c collaborators \<Rightarrow> call \<Rightarrow> STATUS_MIN_MAX_POPUP \<Rightarrow> STATUS_MIN_MAX_POPUP" where
  "do_call tk Call_Popup s = Popup s"
| "do_call tk (Call_PopupFor aMsecs) s = PopupFor aMsecs s"
| "do_call tk (Call_Move_VECTOR2I aWhere) s = Move_VECTOR2I aWhere s"
| "do_call tk (Call_Move_wxPoint aWhere) s = Move_wxPoint aWhere s"
| "do_call tk (Call_Expire aMsecs) s = Expire aMsecs s"
| "do_call tk (Call_SetCurrent aCurrent aLabel) s = SetCurrent tk aCurrent aLabel s"
| "do_call tk Timer_fires s = onExpire s"

fun do_calls :: "'c collaborators \<Rightarrow> call list \<Rightarrow> STATUS_MIN_MAX_POPUP \<Rightarrow> STATUS_MIN_MAX_POPUP" where
  "do_calls tk [] s = s"
| "do_calls tk (c # cs) s = do_calls tk cs (do_call tk c s)"

section \<open>A concrete setting\<close>

text \<open>
  A toolkit to run the popups in: a colour is represented by its lightness alone, white
  and light grey are light, and the formatter tells only zero from the rest.
\<close>

definition white :: wxColour where
  "white = \<lparr> Red = 255, Green = 255, Blue = 255, Alpha = 255 \<rparr>"

definition black :: wxColour where
  "black = \<lparr> Red = 0, Green = 0, Blue = 0, Alpha = 255 \<rparr>"

definition light_red :: wxColour where
  "light_red = \<lparr> Red = 255, Green = 102, Blue = 102, Alpha = 255 \<rparr>"

definition dark_red :: wxColour where
  "dark_red = \<lparr> Red = 153, Green = 0, Blue = 0, Alpha = 255 \<rparr>"

definition grey_toolkit :: "double collaborators" where
  "grey_toolkit =
     \<lparr> GetColour = (\<lambda>c. case c of wxSYS_COLOUR_BTNTEXT \<Rightarrow> black | _ \<Rightarrow> white),
       MessageTextFromValue = (\<lambda>v unit. (if deq v lit_0_0 then ''0'' else ''x'') @ (if unit then '' mm'' else [])),
       COLOR4D_default = lit_0_0,
       COLOR4D_from_wxColour = (\<lambda>c. if c = white then lit_1_0 else if c = black then lit_0_0 else lit_0_5),
       ToHSL = (\<lambda>l. (lit_0_0, lit_0_0, l)),
       FromHSL = (\<lambda>self h s l. l),
       ToColour = (\<lambda>l. if dlt l lit_0_5 then dark_red else light_red),
       Fit = (\<lambda>labels. \<lparr> wx_width = int (length (concat labels)), wx_height = 12 \<rparr>),
       Translate = (\<lambda>s. s),
       DefaultPosition = \<lparr> wx_x = 0, wx_y = 0 \<rparr>,
       DefaultSize = \<lparr> wx_width = 20, wx_height = 20 \<rparr>,
       DefaultBackground = white,
       DefaultForeground = black \<rparr>"

definition a_frame :: EDA_DRAW_FRAME where
  "a_frame = \<lparr> Canvas = 1, FrameEventHandler = 2 \<rparr>"

definition a_popup :: STATUS_MIN_MAX_POPUP where
  "a_popup = STATUS_MIN_MAX_POPUP_ctor grey_toolkit a_frame"

section \<open>Properties\<close>

subsection \<open>Comparisons\<close>

lemma deq_zero_iff: "(dge v lit_0_0 \<and> dle v lit_0_0) = deq v lit_0_0"
  by (cases v) (auto simp: dge_def lit_0_0_def)

lemma deq_not_dlt: "deq x y \<Longrightarrow> \<not> dlt x y \<and> \<not> dlt y x"
  by (cases x; cases y) simp_all

subsection \<open>What \<open>SetCurrent\<close> and \<open>SetMinMax\<close> write\<close>

lemma SetCurrent_icon: 
  "m_icon_IsShown (SetCurrent tk c l s) = (dge c (m_min s) \<and> dle c (m_max s))"
  by (simp add: SetCurrent_def updateSize_def Let_def split: prod.splits)

lemma SetCurrent_minText_colour:
  "ForegroundColour (m_minText (SetCurrent tk c l s)) =
     (if dlt c (m_min s) then warning_colour tk (BackgroundColour s)
      else GetColour tk wxSYS_COLOUR_BTNTEXT)"
  by (simp add: SetCurrent_def updateSize_def warning_colour_def Let_def split: prod.splits)

lemma SetCurrent_maxText_colour:
  "ForegroundColour (m_maxText (SetCurrent tk c l s)) =
     (if dgt c (m_max s) then warning_colour tk (BackgroundColour s)
      else GetColour tk wxSYS_COLOUR_BTNTEXT)"
  by (simp add: SetCurrent_def updateSize_def warning_colour_def Let_def split: prod.splits)

lemma SetCurrent_bounds:
  "m_min (SetCurrent tk c l s) = m_min s \<and> m_max (SetCurrent tk c l s) = m_max s"
  by (simp add: SetCurrent_def updateSize_def Let_def split: prod.splits)

lemma SetMinMax_bounds:
  "m_min (SetMinMax tk a b s) = a \<and> m_max (SetMinMax tk a b s) = b"
  by (simp add: SetMinMax_def Let_def)

lemma SetMinMax_keeps_background:
  "BackgroundColour (SetMinMax tk a b s) = BackgroundColour s"
  by (simp add: SetMinMax_def Let_def)

lemma a_popup_background: "BackgroundColour a_popup = white"
  by (simp add: a_popup_def STATUS_MIN_MAX_POPUP_ctor_def STATUS_POPUP_ctor_def
      STATUS_POPUP.defs STATUS_MIN_MAX_POPUP.defs grey_toolkit_def)

lemma grey_warning_colour:
  "warning_colour grey_toolkit white = dark_red"
  "warning_colour grey_toolkit black = light_red"
  "warning_colour grey_toolkit dark_red = dark_red"
  by (simp_all add: warning_colour_def grey_toolkit_def white_def black_def dark_red_def
      lit_0_0_def lit_1_0_def lit_0_5_def lit_0_7_def lit_0_3_def)

lemma grey_normal_colour: "GetColour grey_toolkit wxSYS_COLOUR_BTNTEXT = black"
  by (simp add: grey_toolkit_def)

lemma grey_ToHSL:
  "ToHSL grey_toolkit (COLOR4D_from_wxColour grey_toolkit white) = (lit_0_0, lit_0_0, lit_1_0)"
  "ToHSL grey_toolkit (COLOR4D_from_wxColour grey_toolkit black) = (lit_0_0, lit_0_0, lit_0_0)"
  "ToHSL grey_toolkit (COLOR4D_from_wxColour grey_toolkit dark_red) = (lit_0_0, lit_0_0, lit_0_5)"
  by (simp_all add: grey_toolkit_def white_def black_def dark_red_def)

lemma grey_ToColour:
  "ToColour grey_toolkit (FromHSL grey_toolkit c h sat l) =
     (if dlt l lit_0_5 then dark_red else light_red)"
  by (simp add: grey_toolkit_def)

lemma dlt_literals:
  "dlt lit_0_0 lit_0_5" "\<not> dlt lit_0_5 lit_0_5" "\<not> dlt lit_1_0 lit_0_5"
  "\<not> dlt lit_0_7 lit_0_5" "dlt lit_0_3 lit_0_5"
  by (simp_all add: lit_0_0_def lit_1_0_def lit_0_5_def lit_0_7_def lit_0_3_def)

lemma elapse_all_Stopped:
  "m_expireTimer s = Stopped \<Longrightarrow> elapse_all waits s = s"
  by (induction waits arbitrary: s) (simp_all add: elapse_def)

lemma elapse_all_OneShot:
  "m_expireTimer s = OneShot left \<Longrightarrow> 0 < left \<Longrightarrow>
     IsShown (elapse_all waits s) = (IsShown s \<and> int (sum_list waits) < left)
     \<and> m_expireTimer (elapse_all waits s) =
         (if int (sum_list waits) < left then OneShot (left - int (sum_list waits)) else Stopped)"
proof (induction waits arbitrary: s left)
  case Nil
  then show ?case by simp
next
  case (Cons w waits)
  show ?case
  proof (cases "int w < left")
    case True
    let ?s = "s\<lparr>m_expireTimer := OneShot (left - int w)\<rparr>"
    have step: "elapse w s = ?s"
      using Cons.prems True by (simp add: elapse_def)
    have "m_expireTimer ?s = OneShot (left - int w)" and "0 < left - int w"
      using True by simp_all
    from Cons.IH [OF this] show ?thesis
      by (simp add: step)
  next
    case False
    let ?s = "onExpire (s\<lparr>m_expireTimer := Stopped\<rparr>)"
    have step: "elapse w s = ?s"
      using Cons.prems False by (simp add: elapse_def)
    have "m_expireTimer ?s = Stopped"
      by (simp add: onExpire_def)
    then have "elapse_all waits ?s = ?s"
      by (rule elapse_all_Stopped)
    then show ?thesis
      using False by (simp add: step onExpire_def)
  qed
qed

lemma do_call_bounds:
  "m_min (do_call tk c s) = m_min s \<and> m_max (do_call tk c s) = m_max s"
  by (cases c)
    (simp_all add: Popup_def PopupFor_def Expire_def Move_VECTOR2I_def Move_wxPoint_def
      SetCurrent_bounds onExpire_def Let_def)

lemma do_calls_bounds:
  "m_min (do_calls tk cs s) = m_min s \<and> m_max (do_calls tk cs s) = m_max s"
  by (induction cs arbitrary: s) (simp_all add: do_call_bounds)

lemma ctor_bounds:
  "m_min (STATUS_MIN_MAX_POPUP_ctor tk f) = lit_0_0 \<and> m_max (STATUS_MIN_MAX_POPUP_ctor tk f) = lit_0_0"
  by (simp add: STATUS_MIN_MAX_POPUP_ctor_def STATUS_POPUP.defs STATUS_MIN_MAX_POPUP.defs)

subsection \<open>The in-range icon\<close>

text \<open>
  C1. For every current value and every pair of bounds the popup holds, the in-range
  icon is shown after \<open>SetCurrent(current, label)\<close> exactly when
  \<open>min \<le> current \<le> max\<close>, both bounds included, with \<open>\<le>\<close> the comparison of
  \<open>double\<close> (so never when one of the three is a NaN).
\<close>

theorem SetCurrent_icon_iff_in_range:
  "m_icon_IsShown (SetCurrent tk current label s) =
     (dle (m_min s) current \<and> dle current (m_max s))"
  by (simp add: SetCurrent_icon dge_def)

theorem SetCurrent_icon_iff_in_range_witness:
  "m_icon_IsShown (SetCurrent grey_toolkit (Finite 5) ''width''
      (SetMinMax grey_toolkit (Finite 0) (Finite 10) a_popup))
   \<and> \<not> m_icon_IsShown (SetCurrent grey_toolkit (Finite 15) ''width''
      (SetMinMax grey_toolkit (Finite 0) (Finite 10) a_popup))
   \<and> m_icon_IsShown (SetCurrent grey_toolkit (Finite 0) ''width''
      (SetMinMax grey_toolkit (Finite 0) (Finite 10) a_popup))
   \<and> m_icon_IsShown (SetCurrent grey_toolkit (Finite 10) ''width''
      (SetMinMax grey_toolkit (Finite 0) (Finite 10) a_popup))
   \<and> \<not> m_icon_IsShown (SetCurrent grey_toolkit NaN ''width''
      (SetMinMax grey_toolkit (Finite 0) (Finite 10) a_popup))"
  using SetCurrent_icon_iff_in_range [of grey_toolkit "Finite 5" "''width''"
      "SetMinMax grey_toolkit (Finite 0) (Finite 10) a_popup"]
    SetCurrent_icon_iff_in_range [of grey_toolkit "Finite 15" "''width''"
      "SetMinMax grey_toolkit (Finite 0) (Finite 10) a_popup"]
    SetCurrent_icon_iff_in_range [of grey_toolkit "Finite 0" "''width''"
      "SetMinMax grey_toolkit (Finite 0) (Finite 10) a_popup"]
    SetCurrent_icon_iff_in_range [of grey_toolkit "Finite 10" "''width''"
      "SetMinMax grey_toolkit (Finite 0) (Finite 10) a_popup"]
    SetCurrent_icon_iff_in_range [of grey_toolkit NaN "''width''"
      "SetMinMax grey_toolkit (Finite 0) (Finite 10) a_popup"]
  by (simp add: SetMinMax_bounds)

subsection \<open>The colours of the bound labels\<close>

text \<open>
  C2. After \<open>SetCurrent\<close> the min label has the warning colour when \<open>current < min\<close>
  and the normal colour (the system's button text colour) otherwise, and the max label
  has the warning colour when \<open>current > max\<close> and the normal colour otherwise. So a
  label whose bound equals the current value has the normal colour, and, the two
  colours being different, a label has the warning colour exactly when the current
  value is beyond its bound.
\<close>

theorem SetCurrent_bound_label_colours:
  "ForegroundColour (m_minText (SetCurrent tk current label s)) =
     (if dlt current (m_min s) then warning_colour tk (BackgroundColour s)
      else GetColour tk wxSYS_COLOUR_BTNTEXT)
   \<and> ForegroundColour (m_maxText (SetCurrent tk current label s)) =
     (if dgt current (m_max s) then warning_colour tk (BackgroundColour s)
      else GetColour tk wxSYS_COLOUR_BTNTEXT)
   \<and> (deq current (m_min s) \<longrightarrow>
        ForegroundColour (m_minText (SetCurrent tk current label s)) =
          GetColour tk wxSYS_COLOUR_BTNTEXT)
   \<and> (deq current (m_max s) \<longrightarrow>
        ForegroundColour (m_maxText (SetCurrent tk current label s)) =
          GetColour tk wxSYS_COLOUR_BTNTEXT)
   \<and> (warning_colour tk (BackgroundColour s) \<noteq> GetColour tk wxSYS_COLOUR_BTNTEXT \<longrightarrow>
        (ForegroundColour (m_minText (SetCurrent tk current label s)) =
           warning_colour tk (BackgroundColour s)) = dlt current (m_min s)
        \<and> (ForegroundColour (m_maxText (SetCurrent tk current label s)) =
           warning_colour tk (BackgroundColour s)) = dgt current (m_max s))"
proof -
  have lo: "deq current (m_min s) \<Longrightarrow> \<not> dlt current (m_min s)"
    by (simp add: deq_not_dlt)
  have hi: "deq current (m_max s) \<Longrightarrow> \<not> dgt current (m_max s)"
    by (simp add: deq_not_dlt dgt_def)
  show ?thesis
    using lo hi by (auto simp: SetCurrent_minText_colour SetCurrent_maxText_colour)
qed

theorem SetCurrent_bound_label_colours_witness:
  "ForegroundColour (m_minText (SetCurrent grey_toolkit (Finite 5) ''width''
      (SetMinMax grey_toolkit (Finite 0) (Finite 10) a_popup))) = black
   \<and> ForegroundColour (m_maxText (SetCurrent grey_toolkit (Finite 5) ''width''
      (SetMinMax grey_toolkit (Finite 0) (Finite 10) a_popup))) = black
   \<and> ForegroundColour (m_minText (SetCurrent grey_toolkit (Finite 15) ''width''
      (SetMinMax grey_toolkit (Finite 0) (Finite 10) a_popup))) = black
   \<and> ForegroundColour (m_maxText (SetCurrent grey_toolkit (Finite 15) ''width''
      (SetMinMax grey_toolkit (Finite 0) (Finite 10) a_popup))) = dark_red
   \<and> deq (Finite 10) (m_max (SetMinMax grey_toolkit (Finite 0) (Finite 10) a_popup))
   \<and> ForegroundColour (m_maxText (SetCurrent grey_toolkit (Finite 10) ''width''
      (SetMinMax grey_toolkit (Finite 0) (Finite 10) a_popup))) = black
   \<and> deq (Finite 0) (m_min (SetMinMax grey_toolkit (Finite 0) (Finite 10) a_popup))
   \<and> ForegroundColour (m_minText (SetCurrent grey_toolkit (Finite 0) ''width''
      (SetMinMax grey_toolkit (Finite 0) (Finite 10) a_popup))) = black
   \<and> warning_colour grey_toolkit
        (BackgroundColour (SetMinMax grey_toolkit (Finite 0) (Finite 10) a_popup))
      \<noteq> GetColour grey_toolkit wxSYS_COLOUR_BTNTEXT
   \<and> ForegroundColour (m_minText (SetCurrent grey_toolkit (Finite (- 1)) ''width''
      (SetMinMax grey_toolkit (Finite 0) (Finite 10) a_popup))) = dark_red"
  using SetCurrent_bound_label_colours [of grey_toolkit "Finite 5" "''width''"
      "SetMinMax grey_toolkit (Finite 0) (Finite 10) a_popup"]
    SetCurrent_bound_label_colours [of grey_toolkit "Finite 15" "''width''"
      "SetMinMax grey_toolkit (Finite 0) (Finite 10) a_popup"]
    SetCurrent_bound_label_colours [of grey_toolkit "Finite 10" "''width''"
      "SetMinMax grey_toolkit (Finite 0) (Finite 10) a_popup"]
    SetCurrent_bound_label_colours [of grey_toolkit "Finite 0" "''width''"
      "SetMinMax grey_toolkit (Finite 0) (Finite 10) a_popup"]
    SetCurrent_bound_label_colours [of grey_toolkit "Finite (- 1)" "''width''"
      "SetMinMax grey_toolkit (Finite 0) (Finite 10) a_popup"]
  by (simp add: SetMinMax_bounds SetMinMax_keeps_background a_popup_background
      grey_warning_colour grey_normal_colour dgt_def dark_red_def black_def)

subsection \<open>The warning colour\<close>

text \<open>
  C3. The warning colour of \<open>SetCurrent\<close> comes from the window's background colour:
  with \<open>bg_l\<close> the lightness \<open>ToHSL\<close> gives for the background, it is the colour
  \<open>FromHSL\<close> makes of hue 0, saturation 1.0 and lightness 0.7 when \<open>bg_l < 0.5\<close>, and
  lightness 0.3 otherwise (so at a background lightness of exactly 0.5 it is 0.3). It is
  what a label beyond its bound is given.
\<close>

theorem SetCurrent_warning_colour_from_background:
  assumes "ToHSL tk (COLOR4D_from_wxColour tk (BackgroundColour s)) = (bg_h, bg_s, bg_l)"
  shows "(dlt current (m_min s) \<longrightarrow>
            ForegroundColour (m_minText (SetCurrent tk current label s)) =
              ToColour tk (FromHSL tk (COLOR4D_default tk) lit_0_0 lit_1_0
                (if dlt bg_l lit_0_5 then lit_0_7 else lit_0_3)))
       \<and> (dgt current (m_max s) \<longrightarrow>
            ForegroundColour (m_maxText (SetCurrent tk current label s)) =
              ToColour tk (FromHSL tk (COLOR4D_default tk) lit_0_0 lit_1_0
                (if dlt bg_l lit_0_5 then lit_0_7 else lit_0_3)))
       \<and> warning_colour tk (BackgroundColour s) =
              ToColour tk (FromHSL tk (COLOR4D_default tk) lit_0_0 lit_1_0
                (if dlt bg_l lit_0_5 then lit_0_7 else lit_0_3))"
proof -
  have w: "warning_colour tk (BackgroundColour s) =
             ToColour tk (FromHSL tk (COLOR4D_default tk) lit_0_0 lit_1_0
               (if dlt bg_l lit_0_5 then lit_0_7 else lit_0_3))"
    using assms by (simp add: warning_colour_def)
  show ?thesis
    by (simp add: SetCurrent_minText_colour SetCurrent_maxText_colour w)
qed

theorem SetCurrent_warning_colour_from_background_witness:
  "dlt (Finite 15) (Finite 10) = False \<and> dgt (Finite 15) (Finite 10)
   \<and> ToHSL grey_toolkit (COLOR4D_from_wxColour grey_toolkit black) = (lit_0_0, lit_0_0, lit_0_0)
   \<and> ForegroundColour (m_maxText (SetCurrent grey_toolkit (Finite 15) ''width''
        (a_popup\<lparr>BackgroundColour := black, m_min := Finite 0, m_max := Finite 10\<rparr>))) = light_red
   \<and> ToHSL grey_toolkit (COLOR4D_from_wxColour grey_toolkit dark_red) = (lit_0_0, lit_0_0, lit_0_5)
   \<and> ForegroundColour (m_maxText (SetCurrent grey_toolkit (Finite 15) ''width''
        (a_popup\<lparr>BackgroundColour := dark_red, m_min := Finite 0, m_max := Finite 10\<rparr>))) = dark_red
   \<and> ToHSL grey_toolkit (COLOR4D_from_wxColour grey_toolkit white) = (lit_0_0, lit_0_0, lit_1_0)
   \<and> ForegroundColour (m_maxText (SetCurrent grey_toolkit (Finite 15) ''width''
        (a_popup\<lparr>BackgroundColour := white, m_min := Finite 0, m_max := Finite 10\<rparr>))) = dark_red"
proof -
  have dark: "ToHSL grey_toolkit (COLOR4D_from_wxColour grey_toolkit
      (BackgroundColour (a_popup\<lparr>BackgroundColour := black, m_min := Finite 0, m_max := Finite 10\<rparr>)))
      = (lit_0_0, lit_0_0, lit_0_0)"
    by (simp add: grey_ToHSL)
  have half: "ToHSL grey_toolkit (COLOR4D_from_wxColour grey_toolkit
      (BackgroundColour (a_popup\<lparr>BackgroundColour := dark_red, m_min := Finite 0, m_max := Finite 10\<rparr>)))
      = (lit_0_0, lit_0_0, lit_0_5)"
    by (simp add: grey_ToHSL)
  have light: "ToHSL grey_toolkit (COLOR4D_from_wxColour grey_toolkit
      (BackgroundColour (a_popup\<lparr>BackgroundColour := white, m_min := Finite 0, m_max := Finite 10\<rparr>)))
      = (lit_0_0, lit_0_0, lit_1_0)"
    by (simp add: grey_ToHSL)
  show ?thesis
    using SetCurrent_warning_colour_from_background [OF dark, of "Finite 15" "''width''"]
      SetCurrent_warning_colour_from_background [OF half, of "Finite 15" "''width''"]
      SetCurrent_warning_colour_from_background [OF light, of "Finite 15" "''width''"]
    by (simp add: grey_ToHSL grey_ToColour dlt_literals dgt_def)
qed

subsection \<open>The expiry timer\<close>

text \<open>
  C4. Arming the expiry timer, by \<open>Expire\<close> or by \<open>PopupFor\<close>, with a duration \<open>d\<close>
  replaces whatever expiry was pending: whatever the timer was doing before, afterwards
  exactly the one expiry \<open>d\<close> is pending (and never more than one, in any state). For
  \<open>d > 0\<close>, as time passes with no other call, the popup is hidden by the timer when
  the time passed since this arming reaches \<open>d\<close> and not before: a deadline armed
  earlier hides nothing.
\<close>

theorem Expire_replaces_pending_expiry:
  "pending_expiries (m_expireTimer (Expire d s)) = [d]
   \<and> pending_expiries (m_expireTimer (PopupFor d s)) = [d]
   \<and> length (pending_expiries t) \<le> 1
   \<and> (0 < d \<longrightarrow>
         IsShown (elapse_all waits (Expire d s)) = (IsShown s \<and> int (sum_list waits) < d)
       \<and> IsShown (elapse_all waits (PopupFor d s)) = (int (sum_list waits) < d)
       \<and> m_expireTimer (elapse_all waits (Expire d s)) =
           (if int (sum_list waits) < d then OneShot (d - int (sum_list waits)) else Stopped)
       \<and> m_expireTimer (elapse_all waits (PopupFor d s)) =
           (if int (sum_list waits) < d then OneShot (d - int (sum_list waits)) else Stopped))"
proof -
  have e: "m_expireTimer (Expire d s) = OneShot d"
    by (simp add: Expire_def StartOnce_def)
  have p: "m_expireTimer (PopupFor d s) = OneShot d"
    by (simp add: PopupFor_def Popup_def Expire_def StartOnce_def Let_def)
  have shown: "IsShown (Expire d s) = IsShown s" "IsShown (PopupFor d s) = True"
    by (simp_all add: PopupFor_def Popup_def Expire_def Let_def)
  have one: "length (pending_expiries t) \<le> 1"
    by (simp add: pending_expiries_def split: wxTimer.splits)
  have armed: "pending_expiries (OneShot d) = [d]"
    by (simp add: pending_expiries_def)
  show ?thesis
    using elapse_all_OneShot [OF e, of waits] elapse_all_OneShot [OF p, of waits] one
    by (simp add: e p shown armed)
qed

theorem Expire_replaces_pending_expiry_witness:
  "(0::int) < 1000
   \<and> IsShown (elapse 400 (Expire 1000 (Popup a_popup)))
   \<and> pending_expiries (m_expireTimer (elapse 400 (Expire 1000 (Popup a_popup)))) = [600]
   \<and> pending_expiries (m_expireTimer (Expire 1000 (elapse 400 (Expire 1000 (Popup a_popup))))) = [1000]
   \<and> \<not> IsShown (elapse_all [300, 400] (elapse 400 (Expire 1000 (Popup a_popup))))
   \<and> IsShown (elapse_all [300, 400] (Expire 1000 (elapse 400 (Expire 1000 (Popup a_popup)))))
   \<and> \<not> IsShown (elapse_all [300, 400, 300] (Expire 1000 (elapse 400 (Expire 1000 (Popup a_popup)))))"
proof -
  have d: "(0::int) < 1000" by simp
  have armed: "m_expireTimer (Expire 1000 (Popup a_popup)) = OneShot 1000"
    by (simp add: Expire_def StartOnce_def)
  have first: "elapse 400 (Expire 1000 (Popup a_popup)) =
      (Expire 1000 (Popup a_popup))\<lparr>m_expireTimer := OneShot 600\<rparr>"
    by (simp add: elapse_def armed)
  have shown: "IsShown (elapse 400 (Expire 1000 (Popup a_popup)))"
    by (simp add: first) (simp add: Expire_def Popup_def Let_def)
  have left: "m_expireTimer (elapse 400 (Expire 1000 (Popup a_popup))) = OneShot 600"
    by (simp add: first)
  have old: "\<not> IsShown (elapse_all [300, 400] (elapse 400 (Expire 1000 (Popup a_popup))))"
    using elapse_all_OneShot [OF left, of "[300, 400]"] by simp
  show ?thesis
    using Expire_replaces_pending_expiry [of 1000 "elapse 400 (Expire 1000 (Popup a_popup))" Stopped "[300, 400]"]
      Expire_replaces_pending_expiry [of 1000 "elapse 400 (Expire 1000 (Popup a_popup))" Stopped "[300, 400, 300]"]
      shown left old d
    by (simp add: pending_expiries_def)
qed

subsection \<open>Showing for a while\<close>

text \<open>
  C5. For every duration \<open>d\<close>, \<open>PopupFor(d)\<close> leaves the popup in the state that
  \<open>Popup()\<close> followed by \<open>Expire(d)\<close> leaves it in: shown, raised, and with the timer
  armed for \<open>d\<close>; nothing else differs either.
\<close>

theorem PopupFor_is_Popup_then_Expire:
  "PopupFor d s = Expire d (Popup s)
   \<and> IsShown (PopupFor d s) = IsShown (Expire d (Popup s))
   \<and> IsRaised (PopupFor d s) = IsRaised (Expire d (Popup s))
   \<and> m_expireTimer (PopupFor d s) = m_expireTimer (Expire d (Popup s))
   \<and> IsShown (PopupFor d s) = True
   \<and> IsRaised (PopupFor d s) = True
   \<and> m_expireTimer (PopupFor d s) = StartOnce d (m_expireTimer s)"
  by (simp add: PopupFor_def Popup_def Expire_def Let_def)

theorem PopupFor_is_Popup_then_Expire_witness:
  "PopupFor 2000 a_popup = Expire 2000 (Popup a_popup)
   \<and> IsShown (PopupFor 2000 a_popup)
   \<and> IsRaised (PopupFor 2000 a_popup)
   \<and> m_expireTimer (PopupFor 2000 a_popup) = OneShot 2000"
proof -
  have "m_expireTimer (PopupFor 2000 a_popup) = OneShot 2000"
    using PopupFor_is_Popup_then_Expire [of 2000 a_popup]
    unfolding StartOnce_def by (elim conjE)
  then show ?thesis
    using PopupFor_is_Popup_then_Expire [of 2000 a_popup] by blast
qed

subsection \<open>The timer's event\<close>

text \<open>
  C6. When the expiry timer fires, its handler \<open>onExpire\<close> hides the popup and changes
  nothing else of a min/max popup: not the position, not the timer as the handler
  finds it, not the texts or the colours of the labels, not whether the icon is shown.
\<close>

theorem onExpire_only_hides:
  fixes s :: STATUS_MIN_MAX_POPUP
  shows "IsShown (onExpire s) = False
   \<and> onExpire s = s\<lparr>IsShown := False\<rparr>
   \<and> Position (onExpire s) = Position s
   \<and> m_expireTimer (onExpire s) = m_expireTimer s
   \<and> m_currentLabel (onExpire s) = m_currentLabel s
   \<and> m_currentText (onExpire s) = m_currentText s
   \<and> m_minText (onExpire s) = m_minText s
   \<and> m_maxText (onExpire s) = m_maxText s
   \<and> m_icon_IsShown (onExpire s) = m_icon_IsShown s
   \<and> IsRaised (onExpire s) = IsRaised s
   \<and> ClientSize (onExpire s) = ClientSize s
   \<and> BackgroundColour (onExpire s) = BackgroundColour s
   \<and> m_min (onExpire s) = m_min s
   \<and> m_max (onExpire s) = m_max s"
  by (simp add: onExpire_def)

theorem onExpire_only_hides_witness:
  "IsShown (PopupFor 2000 a_popup)
   \<and> \<not> IsShown (onExpire (PopupFor 2000 a_popup))
   \<and> onExpire (PopupFor 2000 a_popup) = (PopupFor 2000 a_popup)\<lparr>IsShown := False\<rparr>
   \<and> m_expireTimer (onExpire (PopupFor 2000 a_popup)) = OneShot 2000"
  using onExpire_only_hides [of "PopupFor 2000 a_popup"]
  by (simp add: PopupFor_def Popup_def Expire_def StartOnce_def Let_def)

subsection \<open>Forwarding a key\<close>

text \<open>
  C7. When the popup forwards a key event and has a parent window, the event, retyped
  as a character event, goes to the canvas of the parent if the parent is a draw frame
  (the downcast succeeds), and otherwise to the parent's own event handler: forwarding
  does not fail on a parent of another type.
\<close>

theorem onCharHook_forwards:
  assumes "Parent s = Some w"
  shows "onCharHook s aEvent =
           (case w of
              DrawFrameWindow frame \<Rightarrow>
                Inr (Canvas_OnEvent (Canvas frame) (aEvent\<lparr>EventType := wxEVT_CHAR\<rparr>))
            | OtherWindow h \<Rightarrow>
                Inr (ProcessEvent (GetEventHandler w) (aEvent\<lparr>EventType := wxEVT_CHAR\<rparr>)))
       \<and> (\<exists>d. onCharHook s aEvent = Inr d)
       \<and> (dynamic_cast_EDA_DRAW_FRAME (Some w) = None \<longrightarrow>
            onCharHook s aEvent =
              Inr (ProcessEvent (GetEventHandler w) (aEvent\<lparr>EventType := wxEVT_CHAR\<rparr>)))"
  using assms by (cases w) (simp_all add: onCharHook_def Let_def)

theorem onCharHook_forwards_witness:
  "Parent a_popup = Some (DrawFrameWindow a_frame)
   \<and> onCharHook a_popup \<lparr> EventType = wxEVT_CHAR_HOOK, KeyCode = 27 \<rparr> =
       Inr (Canvas_OnEvent 1 \<lparr> EventType = wxEVT_CHAR, KeyCode = 27 \<rparr>)
   \<and> Parent (a_popup\<lparr>Parent := Some (OtherWindow 7)\<rparr>) = Some (OtherWindow 7)
   \<and> dynamic_cast_EDA_DRAW_FRAME (Some (OtherWindow 7)) = None
   \<and> onCharHook (a_popup\<lparr>Parent := Some (OtherWindow 7)\<rparr>)
         \<lparr> EventType = wxEVT_CHAR_HOOK, KeyCode = 27 \<rparr> =
       Inr (ProcessEvent 7 \<lparr> EventType = wxEVT_CHAR, KeyCode = 27 \<rparr>)"
proof -
  have frame: "Parent a_popup = Some (DrawFrameWindow a_frame)"
    by (simp add: a_popup_def STATUS_MIN_MAX_POPUP_ctor_def STATUS_POPUP_ctor_def
        STATUS_POPUP.defs STATUS_MIN_MAX_POPUP.defs)
  have other: "Parent (a_popup\<lparr>Parent := Some (OtherWindow 7)\<rparr>) = Some (OtherWindow 7)"
    by simp
  show ?thesis
    using onCharHook_forwards [OF frame, of "\<lparr> EventType = wxEVT_CHAR_HOOK, KeyCode = 27 \<rparr>"]
      onCharHook_forwards [OF other, of "\<lparr> EventType = wxEVT_CHAR_HOOK, KeyCode = 27 \<rparr>"]
      frame
    by (simp add: a_frame_def)
qed

subsection \<open>Moving\<close>

text \<open>
  C8. The two \<open>Move\<close> overloads agree: for every point \<open>(x, y)\<close>, \<open>Move\<close> with the
  integer vector of \<open>(x, y)\<close> and \<open>Move\<close> with the toolkit point of \<open>(x, y)\<close> leave
  the popup in the same state, which is the state before with the position set to
  \<open>(x, y)\<close>.
\<close>

theorem Move_overloads_agree:
  "Move_VECTOR2I \<lparr> vec_x = x, vec_y = y \<rparr> s = Move_wxPoint \<lparr> wx_x = x, wx_y = y \<rparr> s
   \<and> Position (Move_VECTOR2I \<lparr> vec_x = x, vec_y = y \<rparr> s) = \<lparr> wx_x = x, wx_y = y \<rparr>
   \<and> Position (Move_wxPoint \<lparr> wx_x = x, wx_y = y \<rparr> s) = \<lparr> wx_x = x, wx_y = y \<rparr>
   \<and> Move_wxPoint \<lparr> wx_x = x, wx_y = y \<rparr> s = s\<lparr>Position := \<lparr> wx_x = x, wx_y = y \<rparr>\<rparr>
   \<and> Move_VECTOR2I \<lparr> vec_x = x, vec_y = y \<rparr> s = s\<lparr>Position := \<lparr> wx_x = x, wx_y = y \<rparr>\<rparr>"
  by (simp add: Move_VECTOR2I_def Move_wxPoint_def ToWxPoint_def)

theorem Move_overloads_agree_witness:
  "Move_VECTOR2I \<lparr> vec_x = 30, vec_y = - 4 \<rparr> a_popup = Move_wxPoint \<lparr> wx_x = 30, wx_y = - 4 \<rparr> a_popup
   \<and> Position (Move_VECTOR2I \<lparr> vec_x = 30, vec_y = - 4 \<rparr> a_popup) = \<lparr> wx_x = 30, wx_y = - 4 \<rparr>"
  using Move_overloads_agree [of 30 "- 4" a_popup]
  by simp

subsection \<open>Changing the range\<close>

text \<open>
  C9. \<open>SetMinMax(min, max)\<close> changes the two stored bounds and the texts of the two
  bound labels, and nothing else: it leaves the icon and the colours of the bound
  labels as they are, so after \<open>SetCurrent\<close> and then a change of range they are still
  what \<open>SetCurrent\<close> made them, whatever the new range.
\<close>

theorem SetMinMax_changes_only_bounds_and_texts:
  "SetMinMax tk aMin aMax s =
     s\<lparr>m_min := aMin, m_max := aMax,
       m_minText := (m_minText s)\<lparr>Label := MessageTextFromValue tk aMin False\<rparr>,
       m_maxText := (m_maxText s)\<lparr>Label := MessageTextFromValue tk aMax False\<rparr>\<rparr>
   \<and> m_icon_IsShown (SetMinMax tk aMin aMax s) = m_icon_IsShown s
   \<and> ForegroundColour (m_minText (SetMinMax tk aMin aMax s)) = ForegroundColour (m_minText s)
   \<and> ForegroundColour (m_maxText (SetMinMax tk aMin aMax s)) = ForegroundColour (m_maxText s)
   \<and> m_icon_IsShown (SetMinMax tk aMin aMax (SetCurrent tk current label s)) =
       m_icon_IsShown (SetCurrent tk current label s)
   \<and> ForegroundColour (m_minText (SetMinMax tk aMin aMax (SetCurrent tk current label s))) =
       ForegroundColour (m_minText (SetCurrent tk current label s))
   \<and> ForegroundColour (m_maxText (SetMinMax tk aMin aMax (SetCurrent tk current label s))) =
       ForegroundColour (m_maxText (SetCurrent tk current label s))"
  by (simp add: SetMinMax_def Let_def)

theorem SetMinMax_changes_only_bounds_and_texts_witness:
  "m_icon_IsShown (SetMinMax grey_toolkit (Finite 6) (Finite 10)
      (SetCurrent grey_toolkit (Finite 5) ''width''
        (SetMinMax grey_toolkit (Finite 0) (Finite 10) a_popup)))
   \<and> dlt (Finite 5) (m_min (SetMinMax grey_toolkit (Finite 6) (Finite 10)
      (SetCurrent grey_toolkit (Finite 5) ''width''
        (SetMinMax grey_toolkit (Finite 0) (Finite 10) a_popup))))
   \<and> ForegroundColour (m_minText (SetMinMax grey_toolkit (Finite 6) (Finite 10)
      (SetCurrent grey_toolkit (Finite 5) ''width''
        (SetMinMax grey_toolkit (Finite 0) (Finite 10) a_popup)))) = black"
  using SetMinMax_changes_only_bounds_and_texts [of grey_toolkit "Finite 6" "Finite 10"
      "SetMinMax grey_toolkit (Finite 0) (Finite 10) a_popup" "Finite 5" "''width''"]
  by (simp add: SetCurrent_icon SetCurrent_minText_colour SetMinMax_bounds dge_def
      grey_normal_colour)

subsection \<open>A new popup\<close>

text \<open>
  C10. A newly constructed min/max popup has both bounds \<open>0.0\<close>. So as long as
  \<open>SetMinMax\<close> has not been called, whatever else has been called and whether or not
  the timer has fired, \<open>SetCurrent(v, label)\<close> shows the icon exactly when \<open>v\<close> equals
  zero.
\<close>

theorem new_popup_icon_iff_zero:
  "m_min (STATUS_MIN_MAX_POPUP_ctor tk aFrame) = lit_0_0
   \<and> m_max (STATUS_MIN_MAX_POPUP_ctor tk aFrame) = lit_0_0
   \<and> m_icon_IsShown (SetCurrent tk v label (STATUS_MIN_MAX_POPUP_ctor tk aFrame)) = deq v lit_0_0
   \<and> m_icon_IsShown (SetCurrent tk v label (do_calls tk calls (STATUS_MIN_MAX_POPUP_ctor tk aFrame)))
       = deq v lit_0_0"
  by (simp add: SetCurrent_icon do_calls_bounds ctor_bounds deq_zero_iff)

theorem new_popup_icon_iff_zero_witness:
  "m_icon_IsShown (SetCurrent grey_toolkit (Finite 0) ''width''
      (do_calls grey_toolkit [Call_PopupFor 500, Call_SetCurrent (Finite 3) ''gap'', Timer_fires]
         (STATUS_MIN_MAX_POPUP_ctor grey_toolkit a_frame)))
   \<and> \<not> m_icon_IsShown (SetCurrent grey_toolkit (Finite 3) ''width''
      (STATUS_MIN_MAX_POPUP_ctor grey_toolkit a_frame))
   \<and> \<not> m_icon_IsShown (SetCurrent grey_toolkit NaN ''width''
      (STATUS_MIN_MAX_POPUP_ctor grey_toolkit a_frame))"
  using new_popup_icon_iff_zero [of grey_toolkit a_frame "Finite 0" "''width''"
      "[Call_PopupFor 500, Call_SetCurrent (Finite 3) ''gap'', Timer_fires]"]
    new_popup_icon_iff_zero [of grey_toolkit a_frame "Finite 3" "''width''" "[]"]
    new_popup_icon_iff_zero [of grey_toolkit a_frame NaN "''width''" "[]"]
  by (simp add: lit_0_0_def)

end
